theory Spec2Isabelle
  imports Complex_Main
begin

section \<open>JavaScript values and the runtime operations the scripts use\<close>

text \<open>
  The three scripts (\<^verbatim>\<open>auth.js\<close>, \<^verbatim>\<open>auth-server.js\<close>, \<^verbatim>\<open>test-api.js\<close>) read JSON bodies
  with \<^verbatim>\<open>response.json()\<close> and branch on the truthiness of their fields. A parsed body is
  any JSON value; \<open>JUndefined\<close> is what reading an absent property yields. An object is
  the list of its own properties in order, with distinct keys (as \<^verbatim>\<open>JSON.parse\<close> builds it).
  A number is carried as a rational: the code tests numbers for truthiness only and
  otherwise hands them to the runtime's printing routines.
\<close>

datatype jsval =
    JUndefined
  | JNull
  | JBool bool
  | JNum rat
  | JStr string
  | JArr "jsval list"
  | JObj "(string \<times> jsval) list"

text \<open>What a promise or a call can fail with. \<open>NetworkError\<close> is a rejected \<^verbatim>\<open>fetch\<close>.\<close>

datatype js_error = TypeError | SyntaxError | NetworkError

text \<open>JavaScript's ToBoolean, as \<^verbatim>\<open>if (v)\<close> applies it.\<close>

fun truthy :: "jsval \<Rightarrow> bool" where
  "truthy JUndefined = False"
| "truthy JNull = False"
| "truthy (JBool b) = b"
| "truthy (JNum n) = (n \<noteq> 0)"
| "truthy (JStr s) = (s \<noteq> [])"
| "truthy (JArr xs) = True"
| "truthy (JObj fs) = True"

text \<open>
  \<^verbatim>\<open>process.env.X\<close>, \<^verbatim>\<open>searchParams.get(k)\<close> and \<^verbatim>\<open>headers.get(k)\<close> yield a string or nothing
  (\<^verbatim>\<open>undefined\<close> for the first, \<^verbatim>\<open>null\<close> for the other two): a \<open>string option\<close>. Such a
  value is truthy when it is a non-empty string, and a template literal or a string
  conversion turns the missing value into its name.
\<close>

definition truthy_str :: "string option \<Rightarrow> bool" where
  "truthy_str v = (case v of None \<Rightarrow> False | Some s \<Rightarrow> s \<noteq> [])"

definition undefined_or :: "string option \<Rightarrow> string" where
  "undefined_or v = (case v of None \<Rightarrow> ''undefined'' | Some s \<Rightarrow> s)"

definition null_or :: "string option \<Rightarrow> string" where
  "null_or v = (case v of None \<Rightarrow> ''null'' | Some s \<Rightarrow> s)"

text \<open>
  Whether ToString of a value is the empty string: only the empty string itself and an
  array that joins to nothing (no element, or a single element that is \<^verbatim>\<open>null\<close>,
  \<^verbatim>\<open>undefined\<close> or renders empty) do. This decides \<^verbatim>\<open>xs.join(', ') || 'none'\<close>.
\<close>

fun renders_empty :: "jsval \<Rightarrow> bool" where
  "renders_empty (JStr s) = (s = [])"
| "renders_empty (JArr []) = True"
| "renders_empty (JArr [x]) = (x = JUndefined \<or> x = JNull \<or> renders_empty x)"
| "renders_empty v = False"

text \<open>
  Text the scripts print or send. A template literal is the list of its parts: literal
  text, and the places where the runtime renders an arbitrary value (\<^verbatim>\<open>${v}\<close>,
  \<^verbatim>\<open>JSON.stringify(v, null, 2)\<close>, \<^verbatim>\<open>xs.join(sep)\<close>, and a value passed to the console as
  an argument of its own). The rendering itself is the runtime's and is not computed here.
\<close>

datatype part =
    Lit string
  | ToString jsval
  | JSON_stringify jsval
  | Join "jsval list" string
  | Inspect jsval

type_synonym message = "part list"

section \<open>HTTP, the console and the process\<close>

record fetch_request =
  req_url :: string
  req_method :: string
  req_headers :: "(string \<times> string) list"
  req_body :: "(string \<times> string) list option"

text \<open>
  A response as the scripts read it: the status, \<^verbatim>\<open>headers.get\<close>, and what
  \<^verbatim>\<open>response.json()\<close> resolves to (\<open>None\<close> when the body is not JSON and the call rejects).
\<close>

record response =
  resp_status :: nat
  headers_get :: "string \<Rightarrow> string option"
  resp_json :: "jsval option"

datatype fetch_outcome = Rejected | Responded response

type_synonym net = "fetch_request \<Rightarrow> fetch_outcome"

type_synonym env = "string \<Rightarrow> string option"

datatype effect =
    Fetch fetch_request
  | WriteHead nat "(string \<times> string) list"
  | End message
  | ConsoleLog "message list"
  | ConsoleError "message list"
  | SetTimeout "effect list" nat
  | ProcessExit nat

text \<open>
  A run of an (async) function: the effects it performed, in order, and then either the
  error it threw or the value it returned.
\<close>

type_synonym 'a prog = "effect list \<times> (js_error + 'a)"

definition ret :: "'a \<Rightarrow> 'a prog" where
  "ret x = ([], Inr x)"

definition throw :: "js_error \<Rightarrow> 'a prog" where
  "throw e = ([], Inl e)"

definition emit :: "effect list \<Rightarrow> unit prog" where
  "emit es = (es, Inr ())"

definition and_then :: "'a prog \<Rightarrow> ('a \<Rightarrow> 'b prog) \<Rightarrow> 'b prog" where
  "and_then m f =
     (case m of
        (es, Inl e) \<Rightarrow> (es, Inl e)
      | (es, Inr x) \<Rightarrow> (case f x of (es', r) \<Rightarrow> (es @ es', r)))"

definition before :: "unit prog \<Rightarrow> 'b prog \<Rightarrow> 'b prog" where
  "before m n = and_then m (\<lambda>u. n)"

text \<open>\<^verbatim>\<open>response.ok\<close>: the status is in the range 200 to 299.\<close>

definition ok :: "response \<Rightarrow> bool" where
  "ok r = (200 \<le> resp_status r \<and> resp_status r \<le> 299)"

text \<open>\<^verbatim>\<open>await fetch(...)\<close>: one request; a network failure rejects.\<close>

definition fetch :: "net \<Rightarrow> fetch_request \<Rightarrow> response prog" where
  "fetch net rq =
     (case net rq of
        Rejected \<Rightarrow> ([Fetch rq], Inl NetworkError)
      | Responded r \<Rightarrow> ([Fetch rq], Inr r))"

text \<open>\<^verbatim>\<open>await response.json()\<close>: rejects with a SyntaxError when the body is not JSON.\<close>

definition json :: "response \<Rightarrow> jsval prog" where
  "json r = (case resp_json r of None \<Rightarrow> throw SyntaxError | Some v \<Rightarrow> ret v)"

text \<open>
  Reading a property \<^verbatim>\<open>v.k\<close>, for the names the scripts read (none of them is a
  property of a prototype): a TypeError on \<^verbatim>\<open>null\<close> and \<^verbatim>\<open>undefined\<close>, the own
  property of an object, \<^verbatim>\<open>undefined\<close> on anything else.
\<close>

definition own_prop :: "(string \<times> jsval) list \<Rightarrow> string \<Rightarrow> jsval" where
  "own_prop fs k = (case map_of fs k of None \<Rightarrow> JUndefined | Some v \<Rightarrow> v)"

fun get_prop :: "jsval \<Rightarrow> string \<Rightarrow> jsval prog" where
  "get_prop JUndefined k = throw TypeError"
| "get_prop JNull k = throw TypeError"
| "get_prop (JObj fs) k = ret (own_prop fs k)"
| "get_prop v k = ret JUndefined"

text \<open>
  Whether ToString of a value returns. Converting an object asks for its \<^verbatim>\<open>toString\<close>
  and then its \<^verbatim>\<open>valueOf\<close>: an object of a JSON body answers \<^verbatim>\<open>[object Object]\<close> through
  the inherited \<^verbatim>\<open>toString\<close>, unless it has an entry of its own named \<^verbatim>\<open>toString\<close>. Such an
  entry is never a function, the inherited \<^verbatim>\<open>valueOf\<close> (or an own entry of that name) gives
  no primitive either, and the conversion throws a TypeError. An array converts by
  joining its elements, so it throws when one of them does; every other value converts.
\<close>

fun stringifies :: "jsval \<Rightarrow> bool" where
  "stringifies (JObj fs) = (map_of fs ''toString'' = None)"
| "stringifies (JArr xs) = list_all stringifies xs"
| "stringifies v = True"

text \<open>\<^verbatim>\<open>${v}\<close> in a template literal: ToString of the value, which may throw.\<close>

definition to_string :: "jsval \<Rightarrow> part prog" where
  "to_string v = (if stringifies v then ret (ToString v) else throw TypeError)"

text \<open>
  \<^verbatim>\<open>v.join(sep)\<close>: only an array has the method; on \<^verbatim>\<open>null\<close> and \<^verbatim>\<open>undefined\<close> the
  property read throws, on any other value of a JSON body \<^verbatim>\<open>join\<close> is not a function.
  Joining converts every element but \<^verbatim>\<open>null\<close> and \<^verbatim>\<open>undefined\<close> to a string, and throws
  when an element does not convert.
\<close>

fun js_join :: "jsval \<Rightarrow> string \<Rightarrow> part prog" where
  "js_join (JArr xs) sep = (if list_all stringifies xs then ret (Join xs sep) else throw TypeError)"
| "js_join v sep = throw TypeError"

text \<open>\<^verbatim>\<open>v?.join(', ') || 'none'\<close>: the optional chain stops at \<^verbatim>\<open>null\<close> and \<^verbatim>\<open>undefined\<close>.\<close>

fun join_or_none :: "jsval \<Rightarrow> part prog" where
  "join_or_none JUndefined = ret (Lit ''none'')"
| "join_or_none JNull = ret (Lit ''none'')"
| "join_or_none (JArr xs) =
     (if list_all stringifies xs
      then ret (if renders_empty (JArr xs) then Lit ''none'' else Join xs '', '')
      else throw TypeError)"
| "join_or_none v = throw TypeError"

text \<open>
  \<^verbatim>\<open>v.substring(0, 10)\<close>: only a string has the method. The first ten characters
  (code units; the tokens are ASCII).
\<close>

fun substring_0_10 :: "jsval \<Rightarrow> string prog" where
  "substring_0_10 (JStr s) = ret (take 10 s)"
| "substring_0_10 v = throw TypeError"

section \<open>URLs\<close>

text \<open>
  A URL object as far as the scripts use it: where it points, and its query as the
  list \<^verbatim>\<open>searchParams\<close> iterates over (decoded names and values, in order).
\<close>

record URL =
  origin :: string
  pathname :: string
  searchParams :: "(string \<times> string) list"

text \<open>\<^verbatim>\<open>searchParams.get(k)\<close>: the value of the first pair named \<open>k\<close>, or \<^verbatim>\<open>null\<close>.\<close>

definition searchParams_get :: "URL \<Rightarrow> string \<Rightarrow> string option" where
  "searchParams_get u k = map_of (searchParams u) k"

text \<open>
  \<^verbatim>\<open>searchParams.set(k, v)\<close>: the first pair named \<open>k\<close> takes the value and the others
  are removed; without one, the pair is appended.
\<close>

fun set_pair :: "string \<Rightarrow> string \<Rightarrow> (string \<times> string) list \<Rightarrow> (string \<times> string) list" where
  "set_pair k v [] = [(k, v)]"
| "set_pair k v (p # ps) =
     (if fst p = k then (k, v) # filter (\<lambda>q. fst q \<noteq> k) ps else p # set_pair k v ps)"

definition searchParams_set :: "string \<Rightarrow> string \<Rightarrow> URL \<Rightarrow> URL" where
  "searchParams_set k v u = u\<lparr>searchParams := set_pair k v (searchParams u)\<rparr>"





fun join_strings :: "string \<Rightarrow> string list \<Rightarrow> string" where
  "join_strings sep [] = []"
| "join_strings sep [x] = x"
| "join_strings sep (x # y # ys) = x @ sep @ join_strings sep (y # ys)"



section \<open>The callback server (\<^verbatim>\<open>auth-server.js\<close>)\<close>

text \<open>The module constants; the two credentials come from the environment.\<close>

definition CLIENT_ID :: "env \<Rightarrow> string option" where
  "CLIENT_ID env = env ''TWITCH_CLIENT_ID''"

definition CLIENT_SECRET :: "env \<Rightarrow> string option" where
  "CLIENT_SECRET env = env ''TWITCH_CLIENT_SECRET''"

definition REDIRECT_URI :: string where
  "REDIRECT_URI = ''http://localhost:3000/callback''"

definition token_endpoint :: string where
  "token_endpoint = ''https://id.twitch.tv/oauth2/token''"

definition form_headers :: "(string \<times> string) list" where
  "form_headers = [(''Content-Type'', ''application/x-www-form-urlencoded'')]"

text \<open>The request \<^verbatim>\<open>exchangeCodeForToken(code)\<close> posts.\<close>

definition exchange_request :: "env \<Rightarrow> string option \<Rightarrow> fetch_request" where
  "exchange_request env code =
     \<lparr>req_url = token_endpoint, req_method = ''POST'', req_headers = form_headers,
      req_body = Some
        [(''client_id'', undefined_or (CLIENT_ID env)),
         (''client_secret'', undefined_or (CLIENT_SECRET env)),
         (''code'', null_or code),
         (''grant_type'', ''authorization_code''),
         (''redirect_uri'', REDIRECT_URI)]\<rparr>"

text \<open>
  \<^verbatim>\<open>exchangeCodeForToken\<close>: one POST, and the parsed body is returned whatever it holds
  and whatever the status is.
\<close>

definition exchangeCodeForToken :: "env \<Rightarrow> net \<Rightarrow> string option \<Rightarrow> jsval prog" where
  "exchangeCodeForToken env net code =
     and_then (fetch net (exchange_request env code)) (\<lambda>response. json response)"

definition html :: "(string \<times> string) list" where
  "html = [(''Content-Type'', ''text/html'')]"

definition success_page :: string where
  "success_page =
     ''\<newline>          <h1>Authorization Successful!</h1>'' @
     ''\<newline>          <p>You can close this window.</p>'' @
     ''\<newline>          <p>Check your terminal for the tokens.</p>'' @
     ''\<newline>        ''"

definition rule_line :: string where
  "rule_line = ''========================================''"

text \<open>The callback of \<^verbatim>\<open>setTimeout(..., 1000)\<close> on success.\<close>

definition shutdown :: "effect list" where
  "shutdown = [ConsoleLog [[Lit ''Shutting down server...'']], ProcessExit 0]"

text \<open>The branch of the handler taken when \<^verbatim>\<open>tokens.access_token\<close> is truthy.\<close>

definition on_tokens :: "jsval \<Rightarrow> unit prog" where
  "on_tokens tokens =
     before (emit
       [WriteHead 200 html,
        End [Lit success_page],
        ConsoleLog [[Lit (''\<newline>'' @ rule_line)]],
        ConsoleLog [[Lit ''SUCCESS! Update ~/twitch-secrets/.env:'']],
        ConsoleLog [[Lit (rule_line @ ''\<newline>'')]]])
    (and_then (get_prop tokens ''access_token'') (\<lambda>access_token.
     and_then (to_string access_token) (\<lambda>access.
     before (emit [ConsoleLog [[Lit ''TWITCH_ACCESS_TOKEN='', access]]])
    (and_then (get_prop tokens ''refresh_token'') (\<lambda>refresh_token.
     and_then (to_string refresh_token) (\<lambda>refresh.
     before (emit
       [ConsoleLog [[Lit ''TWITCH_REFRESH_TOKEN='', refresh]],
        ConsoleLog [[Lit (''\<newline>'' @ rule_line)]]])
    (and_then (get_prop tokens ''expires_in'') (\<lambda>expires_in.
     and_then (to_string expires_in) (\<lambda>expires.
     before (emit
       [ConsoleLog [[Lit ''Token expires in: '', expires, Lit '' seconds'']]])
    (and_then (get_prop tokens ''scope'') (\<lambda>scope.
     and_then (join_or_none scope) (\<lambda>scopes.
     emit
       [ConsoleLog [[Lit ''Scopes:''], [scopes]],
        ConsoleLog [[Lit (rule_line @ ''\<newline>'')]],
        SetTimeout shutdown 1000]))))))))))))"

text \<open>The branch taken when it is not.\<close>

definition on_failure :: "jsval \<Rightarrow> unit prog" where
  "on_failure tokens =
     emit
       [WriteHead 500 html,
        End [Lit ''<h1>Token Exchange Failed</h1><pre>'', JSON_stringify tokens, Lit ''</pre>''],
        ConsoleError [[Lit ''Token exchange failed:''], [Inspect tokens]]]"

text \<open>
  The request handler, the callback of \<^verbatim>\<open>createServer\<close>. A request reaches it as what
  its first statement, \<^verbatim>\<open>new URL(req.url, `http://localhost:${PORT}`)\<close>, makes of the
  request target: the URL object, or nothing when the constructor throws a TypeError. It
  throws on a target that does not parse against the base, such as \<^verbatim>\<open>//\<close> (an authority
  with an empty host); nothing in the handler catches that.
\<close>

definition handler :: "env \<Rightarrow> net \<Rightarrow> URL option \<Rightarrow> unit prog" where
  "handler env net built =
     (case built of
        None \<Rightarrow> throw TypeError
      | Some url \<Rightarrow>
          if pathname url = ''/callback'' then
            (let code = searchParams_get url ''code'';
                 error = searchParams_get url ''error''
             in if truthy_str error then
                  emit
                    [WriteHead 400 html,
                     End [Lit (''<h1>Authorization Failed</h1><p>Error: '' @ null_or error @
                               ''</p>'')],
                     ConsoleLog [[Lit ''\<newline>Authorization denied by user'']]]
                else if truthy_str code then
                  before (emit
                    [ConsoleLog
                       [[Lit ''\<newline>Received authorization code, exchanging for token...'']]])
                 (and_then (exchangeCodeForToken env net code) (\<lambda>tokens.
                  and_then (get_prop tokens ''access_token'') (\<lambda>access_token.
                  if truthy access_token then on_tokens tokens else on_failure tokens)))
                else ret ())
          else
            emit
              [WriteHead 200 [(''Content-Type'', ''text/plain'')],
               End [Lit ''Twitch OAuth Callback Server\<newline>Waiting for authorization...'']])"

section \<open>Authentication commands (\<^verbatim>\<open>auth.js\<close>)\<close>

text \<open>\<^verbatim>\<open>SCOPES\<close>: the two scopes, joined with a space.\<close>

definition SCOPES :: string where
  "SCOPES = join_strings '' '' [''moderator:read:followers'', ''channel:read:subscriptions'']"

text \<open>The URL \<^verbatim>\<open>startUserAuthFlow\<close> builds, after its four \<^verbatim>\<open>searchParams.set\<close> calls.\<close>

definition authUrl :: "env \<Rightarrow> URL" where
  "authUrl env =
     searchParams_set ''scope'' SCOPES
    (searchParams_set ''response_type'' ''code''
    (searchParams_set ''redirect_uri'' REDIRECT_URI
    (searchParams_set ''client_id'' (undefined_or (CLIENT_ID env))
       \<lparr>origin = ''https://id.twitch.tv'', pathname = ''/oauth2/authorize'',
        searchParams = []\<rparr>)))"


definition validate_request :: "string option \<Rightarrow> fetch_request" where
  "validate_request token =
     \<lparr>req_url = ''https://id.twitch.tv/oauth2/validate'', req_method = ''GET'',
      req_headers = [(''Authorization'', ''OAuth '' @ undefined_or token)],
      req_body = None\<rparr>"

definition validateToken :: "env \<Rightarrow> net \<Rightarrow> jsval prog" where
  "validateToken env net =
     (let token = env ''TWITCH_ACCESS_TOKEN'' in
      if \<not> truthy_str token then
        before (emit [ConsoleLog [[Lit ''No TWITCH_ACCESS_TOKEN found in ~/twitch-secrets/.env'']]])
          (ret JNull)
      else
        before (emit [ConsoleLog [[Lit ''Validating access token...\<newline>'']]])
       (and_then (fetch net (validate_request token)) (\<lambda>response.
        if ok response then
          and_then (json response) (\<lambda>data.
          before (emit [ConsoleLog [[Lit ''Token is VALID'']]])
         (and_then (get_prop data ''login'') (\<lambda>login.
          and_then (to_string login) (\<lambda>user.
          before (emit [ConsoleLog [[Lit ''  User: '', user]]])
         (and_then (get_prop data ''user_id'') (\<lambda>user_id.
          and_then (to_string user_id) (\<lambda>uid.
          before (emit [ConsoleLog [[Lit ''  User ID: '', uid]]])
         (and_then (get_prop data ''scopes'') (\<lambda>scopes.
          and_then (js_join scopes '', '') (\<lambda>joined.
          before (emit [ConsoleLog [[Lit ''  Scopes: '', joined]]])
         (and_then (get_prop data ''expires_in'') (\<lambda>expires_in.
          and_then (to_string expires_in) (\<lambda>expires.
          before (emit
            [ConsoleLog [[Lit ''  Expires in: '', expires, Lit '' seconds'']]])
          (ret data))))))))))))))
        else
          before (emit
            [ConsoleLog [[Lit ''Token is INVALID or EXPIRED'']],
             ConsoleLog [[Lit ''Run: node auth.js refresh'']]])
          (ret JNull))))"

definition refresh_request :: "env \<Rightarrow> string option \<Rightarrow> fetch_request" where
  "refresh_request env refreshToken =
     \<lparr>req_url = token_endpoint, req_method = ''POST'', req_headers = form_headers,
      req_body = Some
        [(''client_id'', undefined_or (CLIENT_ID env)),
         (''client_secret'', undefined_or (CLIENT_SECRET env)),
         (''grant_type'', ''refresh_token''),
         (''refresh_token'', undefined_or refreshToken)]\<rparr>"

definition refreshToken :: "env \<Rightarrow> net \<Rightarrow> jsval prog" where
  "refreshToken env net =
     (let refreshToken = env ''TWITCH_REFRESH_TOKEN'' in
      if \<not> truthy_str refreshToken then
        before (emit
          [ConsoleLog [[Lit ''No TWITCH_REFRESH_TOKEN found in ~/twitch-secrets/.env'']],
           ConsoleLog [[Lit ''Run: node auth.js user  (to get a new token)'']]])
          (ret JNull)
      else
        before (emit [ConsoleLog [[Lit ''Refreshing access token...\<newline>'']]])
       (and_then (fetch net (refresh_request env refreshToken)) (\<lambda>response.
        and_then (json response) (\<lambda>data.
        and_then (get_prop data ''access_token'') (\<lambda>access_token.
        if truthy access_token then
          before (emit [ConsoleLog [[Lit ''Token refreshed successfully!'']]])
         (and_then (substring_0_10 access_token) (\<lambda>a10.
          before (emit [ConsoleLog [[Lit (''New access token: '' @ a10 @ ''...'')]]])
         (and_then (get_prop data ''refresh_token'') (\<lambda>refresh_token.
          and_then (substring_0_10 refresh_token) (\<lambda>r10.
          before (emit
            [ConsoleLog [[Lit (''New refresh token: '' @ r10 @ ''...'')]],
             ConsoleLog [[Lit ''\<newline>Update ~/twitch-secrets/.env with these values:'']]])
         (and_then (to_string access_token) (\<lambda>access.
          before (emit [ConsoleLog [[Lit ''TWITCH_ACCESS_TOKEN='', access]]])
         (and_then (to_string refresh_token) (\<lambda>refresh.
          before (emit [ConsoleLog [[Lit ''TWITCH_REFRESH_TOKEN='', refresh]]])
          (ret data))))))))))
        else
          before (emit [ConsoleError [[Lit ''Refresh failed:''], [Inspect data]]])
            (ret JNull))))))"

section \<open>The Helix probe (\<^verbatim>\<open>test-api.js\<close>)\<close>

definition ACCESS_TOKEN :: "env \<Rightarrow> string option" where
  "ACCESS_TOKEN env = env ''TWITCH_ACCESS_TOKEN''"

definition API_BASE :: string where
  "API_BASE = ''https://api.twitch.tv/helix''"

definition api_request :: "env \<Rightarrow> string \<Rightarrow> fetch_request" where
  "api_request env endpoint =
     \<lparr>req_url = API_BASE @ endpoint, req_method = ''GET'',
      req_headers =
        [(''Authorization'', ''Bearer '' @ undefined_or (ACCESS_TOKEN env)),
         (''Client-Id'', undefined_or (CLIENT_ID env))],
      req_body = None\<rparr>"

text \<open>\<^verbatim>\<open>apiCall\<close> returns the object \<^verbatim>\<open>{ status, data }\<close>: a pair.\<close>

definition apiCall :: "env \<Rightarrow> net \<Rightarrow> string \<Rightarrow> (nat \<times> jsval) prog" where
  "apiCall env net endpoint =
     before (emit [ConsoleLog [[Lit (''GET '' @ API_BASE @ endpoint @ ''\<newline>'')]]])
    (and_then (fetch net (api_request env endpoint)) (\<lambda>response.
     before (emit
       [ConsoleLog [[Lit ''Rate Limit Info:'']],
        ConsoleLog [[Lit (''  Limit: '' @ null_or (headers_get response ''Ratelimit-Limit''))]],
        ConsoleLog [[Lit (''  Remaining: '' @ null_or (headers_get response ''Ratelimit-Remaining''))]],
        ConsoleLog [[Lit (''  Reset: '' @ null_or (headers_get response ''Ratelimit-Reset''))]],
        ConsoleLog [[Lit '''']]])
    (and_then (json response) (\<lambda>data.
     ret (resp_status response, data)))))"

section \<open>Observations on a run\<close>

text \<open>The requests a run sent, the status lines and bodies it wrote, in order.\<close>

fun fetches :: "effect list \<Rightarrow> fetch_request list" where
  "fetches [] = []"
| "fetches (Fetch rq # es) = rq # fetches es"
| "fetches (e # es) = fetches es"

fun statuses :: "effect list \<Rightarrow> nat list" where
  "statuses [] = []"
| "statuses (WriteHead n hs # es) = n # statuses es"
| "statuses (e # es) = statuses es"

fun bodies :: "effect list \<Rightarrow> message list" where
  "bodies [] = []"
| "bodies (End b # es) = b # bodies es"
| "bodies (e # es) = bodies es"

text \<open>
  Whether an effect ends the process: \<^verbatim>\<open>process.exit\<close>, at once or from a timer.
\<close>

fun exits :: "effect \<Rightarrow> bool" where
  "exits (ProcessExit n) = True"
| "exits (SetTimeout es ms) = list_ex exits es"
| "exits e = False"

text \<open>
  The listener stays up after a request when the handler returned (a throw inside the
  async handler is an unhandled rejection) and nothing it did ends the process.
\<close>

definition keeps_running :: "unit prog \<Rightarrow> bool" where
  "keeps_running p = (snd p = Inr () \<and> \<not> list_ex exits (fst p))"


section \<open>Example inputs\<close>

text \<open>An environment with both credentials, and nothing else, configured.\<close>

definition example_env :: env where
  "example_env =
     (\<lambda>k. None)(''TWITCH_CLIENT_ID'' \<mapsto> ''abc123'', ''TWITCH_CLIENT_SECRET'' \<mapsto> ''s3cret'')"

text \<open>A response with a JSON body and no rate-limit headers; a network that always gives it.\<close>

definition json_response :: "nat \<Rightarrow> jsval \<Rightarrow> response" where
  "json_response st v = \<lparr>resp_status = st, headers_get = (\<lambda>k. None), resp_json = Some v\<rparr>"

definition replying :: "response \<Rightarrow> net" where
  "replying r = (\<lambda>rq. Responded r)"

text \<open>The URL object of a request for \<^verbatim>\<open>/callback\<close> with the given query.\<close>

definition callback :: "(string \<times> string) list \<Rightarrow> URL" where
  "callback ps =
     \<lparr>origin = ''http://localhost:3000'', pathname = ''/callback'', searchParams = ps\<rparr>"

text \<open>A 429 from Helix, with its rate-limit headers and its error body.\<close>

definition rate_limited :: response where
  "rate_limited =
     \<lparr>resp_status = 429,
      headers_get =
        (\<lambda>k. None)(''Ratelimit-Limit'' \<mapsto> ''800'', ''Ratelimit-Remaining'' \<mapsto> ''0'',
                   ''Ratelimit-Reset'' \<mapsto> ''1700000000''),
      resp_json = Some (JObj [(''error'', JStr ''Too Many Requests''), (''status'', JNum 429),
                              (''message'', JStr ''too many requests'')])\<rparr>"

text \<open>A response whose body is not JSON, such as the error page of a gateway.\<close>

definition not_json :: "nat \<Rightarrow> response" where
  "not_json st = \<lparr>resp_status = st, headers_get = (\<lambda>k. None), resp_json = None\<rparr>"

section \<open>Running the programs\<close>

lemmas prog_defs =
  ret_def throw_def emit_def and_then_def before_def fetch_def json_def to_string_def

lemma fetches_append: "fetches (xs @ ys) = fetches xs @ fetches ys"
  by (induction xs rule: fetches.induct) simp_all

subsection \<open>The branches of the request handler\<close>

lemma handler_unparsed_target: "handler env net None = ([], Inl TypeError)"
  by (simp add: handler_def throw_def)

lemma handler_other_path:
  "pathname url \<noteq> ''/callback'' \<Longrightarrow>
   handler env net (Some url) =
     ([WriteHead 200 [(''Content-Type'', ''text/plain'')],
       End [Lit ''Twitch OAuth Callback Server\<newline>Waiting for authorization...'']], Inr ())"
  by (simp add: handler_def emit_def)

lemma handler_error:
  "pathname url = ''/callback'' \<Longrightarrow> truthy_str (searchParams_get url ''error'') \<Longrightarrow>
   handler env net (Some url) =
     ([WriteHead 400 html,
       End [Lit (''<h1>Authorization Failed</h1><p>Error: '' @
                 null_or (searchParams_get url ''error'') @ ''</p>'')],
       ConsoleLog [[Lit ''\<newline>Authorization denied by user'']]], Inr ())"
  by (simp add: handler_def emit_def)

lemma handler_idle:
  "pathname url = ''/callback'' \<Longrightarrow> \<not> truthy_str (searchParams_get url ''error'') \<Longrightarrow>
   \<not> truthy_str (searchParams_get url ''code'') \<Longrightarrow>
   handler env net (Some url) = ([], Inr ())"
  by (simp add: handler_def ret_def)

lemma handler_exchange:
  "pathname url = ''/callback'' \<Longrightarrow> \<not> truthy_str (searchParams_get url ''error'') \<Longrightarrow>
   truthy_str (searchParams_get url ''code'') \<Longrightarrow>
   handler env net (Some url) =
     before (emit
       [ConsoleLog [[Lit ''\<newline>Received authorization code, exchanging for token...'']]])
    (and_then (exchangeCodeForToken env net (searchParams_get url ''code'')) (\<lambda>tokens.
     and_then (get_prop tokens ''access_token'') (\<lambda>access_token.
     if truthy access_token then on_tokens tokens else on_failure tokens)))"
  by (simp add: handler_def)

text \<open>
  The handler calls the token endpoint exactly on a callback whose \<^verbatim>\<open>error\<close> is missing
  or empty and whose \<^verbatim>\<open>code\<close> is a non-empty string.
\<close>

lemma exchange_performed_iff:
  "fetches (fst (handler env net (Some url))) \<noteq> [] \<longleftrightarrow>
     pathname url = ''/callback'' \<and> \<not> truthy_str (searchParams_get url ''error'')
     \<and> truthy_str (searchParams_get url ''code'')"
proof (cases "pathname url = ''/callback''")
  case False
  then show ?thesis by (simp add: handler_other_path)
next
  case path: True
  show ?thesis
  proof (cases "truthy_str (searchParams_get url ''error'')")
    case True
    with path show ?thesis by (simp add: handler_error)
  next
    case no_error: False
    show ?thesis
    proof (cases "truthy_str (searchParams_get url ''code'')")
      case False
      with path no_error show ?thesis by (simp add: handler_idle)
    next
      case True
      with path no_error show ?thesis
        by (simp add: handler_exchange exchangeCodeForToken_def prog_defs
            split: fetch_outcome.splits option.splits prod.splits sum.splits)
    qed
  qed
qed

text \<open>\<^verbatim>\<open>exchangeCodeForToken\<close> hands back whatever the body parses to, \<^verbatim>\<open>null\<close> included.\<close>

lemma exchange_returns_body:
  "net (exchange_request env code) = Responded r \<Longrightarrow> resp_json r = Some tokens \<Longrightarrow>
   exchangeCodeForToken env net code = ([Fetch (exchange_request env code)], Inr tokens)"
  by (simp add: exchangeCodeForToken_def prog_defs)

lemma on_tokens_run:
  assumes "stringifies (own_prop fs ''access_token'')"
    and "stringifies (own_prop fs ''refresh_token'')"
    and "stringifies (own_prop fs ''expires_in'')"
    and "own_prop fs ''scope'' = JUndefined \<or> own_prop fs ''scope'' = JNull
         \<or> (\<exists>xs. own_prop fs ''scope'' = JArr xs \<and> list_all stringifies xs)"
  shows "on_tokens (JObj fs) =
     ([WriteHead 200 html,
       End [Lit success_page],
       ConsoleLog [[Lit (''\<newline>'' @ rule_line)]],
       ConsoleLog [[Lit ''SUCCESS! Update ~/twitch-secrets/.env:'']],
       ConsoleLog [[Lit (rule_line @ ''\<newline>'')]],
       ConsoleLog [[Lit ''TWITCH_ACCESS_TOKEN='', ToString (own_prop fs ''access_token'')]],
       ConsoleLog [[Lit ''TWITCH_REFRESH_TOKEN='', ToString (own_prop fs ''refresh_token'')]],
       ConsoleLog [[Lit (''\<newline>'' @ rule_line)]],
       ConsoleLog [[Lit ''Token expires in: '', ToString (own_prop fs ''expires_in''),
                    Lit '' seconds'']],
       ConsoleLog [[Lit ''Scopes:''],
         [case own_prop fs ''scope'' of
            JArr xs \<Rightarrow> if renders_empty (JArr xs) then Lit ''none'' else Join xs '', ''
          | _ \<Rightarrow> Lit ''none'']],
       ConsoleLog [[Lit (rule_line @ ''\<newline>'')]],
       SetTimeout [ConsoleLog [[Lit ''Shutting down server...'']], ProcessExit 0] 1000], Inr ())"
  using assms(4)
proof (elim disjE exE conjE)
  assume "own_prop fs ''scope'' = JUndefined"
  with assms(1-3) show ?thesis by (simp add: on_tokens_def prog_defs shutdown_def)
next
  assume "own_prop fs ''scope'' = JNull"
  with assms(1-3) show ?thesis by (simp add: on_tokens_def prog_defs shutdown_def)
next
  fix xs assume "own_prop fs ''scope'' = JArr xs" "list_all stringifies xs"
  with assms(1-3) show ?thesis by (simp add: on_tokens_def prog_defs shutdown_def)
qed

text \<open>A truthy \<^verbatim>\<open>access_token\<close> can only be read off an object.\<close>

lemma truthy_prop_object:
  "get_prop v k = ret a \<Longrightarrow> truthy a \<Longrightarrow> \<exists>fs. v = JObj fs \<and> a = own_prop fs k"
  by (cases v) (simp_all add: ret_def throw_def)

lemma get_prop_not_null: "get_prop v k = ret a \<Longrightarrow> v \<noteq> JNull"
  by (auto simp: ret_def throw_def)

section \<open>The callback listener\<close>

text \<open>
  C1 (as the code has it). For every request to \<^verbatim>\<open>/callback\<close> whose \<^verbatim>\<open>error\<close> parameter
  (the first one, which is what \<^verbatim>\<open>searchParams.get\<close> reads) has a non-empty value, the
  handler answers with status 400 and an HTML page that names the error, sends no request
  to the token endpoint, and the listener keeps running. The handler tests
  \<^verbatim>\<open>if (error)\<close>, so an \<^verbatim>\<open>error\<close> parameter with an empty value does not take this
  branch.
\<close>

theorem C1_nonempty_error_rejected:
  assumes "pathname url = ''/callback''"
    and "searchParams_get url ''error'' = Some e"
    and "e \<noteq> []"
  shows "handler env net (Some url) =
           ([WriteHead 400 [(''Content-Type'', ''text/html'')],
             End [Lit (''<h1>Authorization Failed</h1><p>Error: '' @ e @ ''</p>'')],
             ConsoleLog [[Lit ''\<newline>Authorization denied by user'']]], Inr ())
         \<and> fetches (fst (handler env net (Some url))) = []
         \<and> keeps_running (handler env net (Some url))"
  using assms by (simp add: handler_error truthy_str_def null_or_def html_def keeps_running_def)

text \<open>The instance \<^verbatim>\<open>/callback?error=access_denied\<close>.\<close>

theorem C1_access_denied_witness:
  "handler example_env (replying (json_response 200 (JObj [(''access_token'', JStr ''tok'')])))
       (Some (callback [(''error'', ''access_denied'')])) =
     ([WriteHead 400 [(''Content-Type'', ''text/html'')],
       End [Lit ''<h1>Authorization Failed</h1><p>Error: access_denied</p>''],
       ConsoleLog [[Lit ''\<newline>Authorization denied by user'']]], Inr ())
   \<and> fetches (fst (handler example_env
         (replying (json_response 200 (JObj [(''access_token'', JStr ''tok'')])))
         (Some (callback [(''error'', ''access_denied'')])))) = []
   \<and> keeps_running (handler example_env
         (replying (json_response 200 (JObj [(''access_token'', JStr ''tok'')])))
         (Some (callback [(''error'', ''access_denied'')])))"
  using C1_nonempty_error_rejected
    [of "callback [(''error'', ''access_denied'')]" "''access_denied''" example_env
       "replying (json_response 200 (JObj [(''access_token'', JStr ''tok'')]))"]
  by (simp add: callback_def searchParams_get_def keeps_running_def)

text \<open>
  The request \<^verbatim>\<open>/callback?error=&code=abc\<close> carries an \<^verbatim>\<open>error\<close> parameter, yet the
  handler calls the token endpoint, answers 200 when the exchange succeeds, and schedules
  the exit of the process.
\<close>

theorem C1_empty_error_counterexample:
  "''error'' \<in> fst ` set (searchParams (callback [(''error'', ''''), (''code'', ''abc'')]))
   \<and> statuses (fst (handler example_env
         (replying (json_response 200 (JObj [(''access_token'', JStr ''tok'')])))
         (Some (callback [(''error'', ''''), (''code'', ''abc'')])))) = [200]
   \<and> fetches (fst (handler example_env
         (replying (json_response 200 (JObj [(''access_token'', JStr ''tok'')])))
         (Some (callback [(''error'', ''''), (''code'', ''abc'')])))) =
       [exchange_request example_env (Some ''abc'')]
   \<and> \<not> keeps_running (handler example_env
         (replying (json_response 200 (JObj [(''access_token'', JStr ''tok'')])))
         (Some (callback [(''error'', ''''), (''code'', ''abc'')])))"
  by (simp add: handler_def callback_def searchParams_get_def truthy_str_def
      exchangeCodeForToken_def replying_def json_response_def prog_defs on_tokens_def
      own_prop_def keeps_running_def shutdown_def)

text \<open>
  C2 (as the code has it). For every request to \<^verbatim>\<open>/callback\<close> whose \<^verbatim>\<open>code\<close> parameter is
  non-empty and whose \<^verbatim>\<open>error\<close> parameter is absent or empty, when the token endpoint
  answers with a JSON object whose \<^verbatim>\<open>access_token\<close> is truthy, whose \<^verbatim>\<open>access_token\<close>,
  \<^verbatim>\<open>refresh_token\<close> and \<^verbatim>\<open>expires_in\<close> convert to strings, and whose \<^verbatim>\<open>scope\<close> is
  absent, \<^verbatim>\<open>null\<close> or a list of values that convert to strings, the handler answers with
  status 200 and the confirmation page, prints the access and the refresh token, and last
  of all sets a timer of 1000 ms whose callback ends the process. The handler tests
  \<^verbatim>\<open>if (error)\<close>, \<^verbatim>\<open>if (code)\<close> and \<^verbatim>\<open>if (tokens.access_token)\<close>: a field that is present
  with a falsy value takes the failure branch.
\<close>

theorem C2_truthy_token_success:
  assumes "pathname url = ''/callback''"
    and "searchParams_get url ''code'' = Some c"
    and "c \<noteq> []"
    and "\<not> truthy_str (searchParams_get url ''error'')"
    and "net (exchange_request env (Some c)) = Responded r"
    and "resp_json r = Some (JObj fs)"
    and "truthy (own_prop fs ''access_token'')"
    and "stringifies (own_prop fs ''access_token'')"
    and "stringifies (own_prop fs ''refresh_token'')"
    and "stringifies (own_prop fs ''expires_in'')"
    and "own_prop fs ''scope'' = JUndefined \<or> own_prop fs ''scope'' = JNull
         \<or> (\<exists>xs. own_prop fs ''scope'' = JArr xs \<and> list_all stringifies xs)"
  shows "handler env net (Some url) =
     ([ConsoleLog [[Lit ''\<newline>Received authorization code, exchanging for token...'']],
       Fetch (exchange_request env (Some c)),
       WriteHead 200 [(''Content-Type'', ''text/html'')],
       End [Lit success_page],
       ConsoleLog [[Lit (''\<newline>'' @ rule_line)]],
       ConsoleLog [[Lit ''SUCCESS! Update ~/twitch-secrets/.env:'']],
       ConsoleLog [[Lit (rule_line @ ''\<newline>'')]],
       ConsoleLog [[Lit ''TWITCH_ACCESS_TOKEN='', ToString (own_prop fs ''access_token'')]],
       ConsoleLog [[Lit ''TWITCH_REFRESH_TOKEN='', ToString (own_prop fs ''refresh_token'')]],
       ConsoleLog [[Lit (''\<newline>'' @ rule_line)]],
       ConsoleLog [[Lit ''Token expires in: '', ToString (own_prop fs ''expires_in''),
                    Lit '' seconds'']],
       ConsoleLog [[Lit ''Scopes:''],
         [case own_prop fs ''scope'' of
            JArr xs \<Rightarrow> if renders_empty (JArr xs) then Lit ''none'' else Join xs '', ''
          | _ \<Rightarrow> Lit ''none'']],
       ConsoleLog [[Lit (rule_line @ ''\<newline>'')]],
       SetTimeout [ConsoleLog [[Lit ''Shutting down server...'']], ProcessExit 0] 1000],
      Inr ())"
proof -
  have code: "truthy_str (searchParams_get url ''code'')"
    using assms(2,3) by (simp add: truthy_str_def)
  have "exchangeCodeForToken env net (Some c) =
      ([Fetch (exchange_request env (Some c))], Inr (JObj fs))"
    using assms(5,6) by (simp add: exchange_returns_body)
  then show ?thesis
    using assms(1,2,4,7) code on_tokens_run [OF assms(8-11)]
    by (simp add: handler_exchange before_def and_then_def emit_def ret_def html_def)
qed

text \<open>
  The instance \<^verbatim>\<open>/callback?code=abc\<close> with the body
  \<^verbatim>\<open>{"access_token": "tok", "refresh_token": "ref", "expires_in": 14000, "scope": ["a"]}\<close>.
\<close>

theorem C2_token_pair_witness:
  "handler example_env
     (replying (json_response 200
        (JObj [(''access_token'', JStr ''tok''), (''refresh_token'', JStr ''ref''),
               (''expires_in'', JNum 14000), (''scope'', JArr [JStr ''a''])])))
     (Some (callback [(''code'', ''abc'')])) =
     ([ConsoleLog [[Lit ''\<newline>Received authorization code, exchanging for token...'']],
       Fetch (exchange_request example_env (Some ''abc'')),
       WriteHead 200 [(''Content-Type'', ''text/html'')],
       End [Lit success_page],
       ConsoleLog [[Lit (''\<newline>'' @ rule_line)]],
       ConsoleLog [[Lit ''SUCCESS! Update ~/twitch-secrets/.env:'']],
       ConsoleLog [[Lit (rule_line @ ''\<newline>'')]],
       ConsoleLog [[Lit ''TWITCH_ACCESS_TOKEN='', ToString (JStr ''tok'')]],
       ConsoleLog [[Lit ''TWITCH_REFRESH_TOKEN='', ToString (JStr ''ref'')]],
       ConsoleLog [[Lit (''\<newline>'' @ rule_line)]],
       ConsoleLog [[Lit ''Token expires in: '', ToString (JNum 14000), Lit '' seconds'']],
       ConsoleLog [[Lit ''Scopes:''], [Join [JStr ''a''] '', '']],
       ConsoleLog [[Lit (rule_line @ ''\<newline>'')]],
       SetTimeout [ConsoleLog [[Lit ''Shutting down server...'']], ProcessExit 0] 1000],
      Inr ())"
  using C2_truthy_token_success
    [where url = "callback [(''code'', ''abc'')]" and c = "''abc''" and env = example_env
       and net = "replying (json_response 200
           (JObj [(''access_token'', JStr ''tok''), (''refresh_token'', JStr ''ref''),
                  (''expires_in'', JNum 14000), (''scope'', JArr [JStr ''a''])]))"
       and r = "json_response 200
           (JObj [(''access_token'', JStr ''tok''), (''refresh_token'', JStr ''ref''),
                  (''expires_in'', JNum 14000), (''scope'', JArr [JStr ''a''])])"
       and fs = "[(''access_token'', JStr ''tok''), (''refresh_token'', JStr ''ref''),
          (''expires_in'', JNum 14000), (''scope'', JArr [JStr ''a''])]"]
  by (simp add: callback_def searchParams_get_def truthy_str_def replying_def
      json_response_def own_prop_def)

text \<open>
  Two requests the claim covers. With \<^verbatim>\<open>/callback?code=abc\<close> and the body
  \<^verbatim>\<open>{"access_token": ""}\<close>, which contains an access token field, the handler answers 500
  and the listener stays up. With \<^verbatim>\<open>/callback?code=abc&error=access_denied\<close>, which carries
  a code, the handler answers 400 and never asks the token endpoint, whatever it would
  have answered.
\<close>

theorem C2_empty_token_counterexample:
  "''access_token'' \<in> fst ` set [(''access_token'', JStr '''')]
   \<and> statuses (fst (handler example_env
         (replying (json_response 200 (JObj [(''access_token'', JStr '''')])))
         (Some (callback [(''code'', ''abc'')])))) = [500]
   \<and> keeps_running (handler example_env
         (replying (json_response 200 (JObj [(''access_token'', JStr '''')])))
         (Some (callback [(''code'', ''abc'')])))
   \<and> ''code'' \<in> fst ` set (searchParams
         (callback [(''code'', ''abc''), (''error'', ''access_denied'')]))
   \<and> statuses (fst (handler example_env
         (replying (json_response 200 (JObj [(''access_token'', JStr ''tok'')])))
         (Some (callback [(''code'', ''abc''), (''error'', ''access_denied'')])))) = [400]
   \<and> keeps_running (handler example_env
         (replying (json_response 200 (JObj [(''access_token'', JStr ''tok'')])))
         (Some (callback [(''code'', ''abc''), (''error'', ''access_denied'')])))"
  by (simp add: handler_def callback_def searchParams_get_def truthy_str_def
      exchangeCodeForToken_def replying_def json_response_def prog_defs on_failure_def
      own_prop_def keeps_running_def)

text \<open>
  Where the conversions fail, the handler throws after the page is out and before the
  timer is set: on a \<^verbatim>\<open>scope\<close> that is not a list, on a \<^verbatim>\<open>scope\<close> with an element that
  does not convert, and on a token that does not convert.
\<close>

lemma handler_scope_not_a_list:
  "snd (handler example_env
      (replying (json_response 200
         (JObj [(''access_token'', JStr ''tok''), (''scope'', JStr ''a b'')])))
      (Some (callback [(''code'', ''abc'')]))) = Inl TypeError
   \<and> \<not> list_ex exits (fst (handler example_env
      (replying (json_response 200
         (JObj [(''access_token'', JStr ''tok''), (''scope'', JStr ''a b'')])))
      (Some (callback [(''code'', ''abc'')]))))"
  by (simp add: handler_def callback_def searchParams_get_def truthy_str_def
      exchangeCodeForToken_def replying_def json_response_def prog_defs on_tokens_def
      own_prop_def)

lemma handler_scope_element_not_text:
  "handler example_env
      (replying (json_response 200
         (JObj [(''access_token'', JStr ''tok''),
                (''scope'', JArr [JObj [(''toString'', JNum 1)]])])))
      (Some (callback [(''code'', ''abc'')])) =
     ([ConsoleLog [[Lit ''\<newline>Received authorization code, exchanging for token...'']],
       Fetch (exchange_request example_env (Some ''abc'')),
       WriteHead 200 [(''Content-Type'', ''text/html'')],
       End [Lit success_page],
       ConsoleLog [[Lit (''\<newline>'' @ rule_line)]],
       ConsoleLog [[Lit ''SUCCESS! Update ~/twitch-secrets/.env:'']],
       ConsoleLog [[Lit (rule_line @ ''\<newline>'')]],
       ConsoleLog [[Lit ''TWITCH_ACCESS_TOKEN='', ToString (JStr ''tok'')]],
       ConsoleLog [[Lit ''TWITCH_REFRESH_TOKEN='', ToString JUndefined]],
       ConsoleLog [[Lit (''\<newline>'' @ rule_line)]],
       ConsoleLog [[Lit ''Token expires in: '', ToString JUndefined, Lit '' seconds'']]],
      Inl TypeError)"
  by (simp add: handler_def callback_def searchParams_get_def truthy_str_def
      exchangeCodeForToken_def replying_def json_response_def prog_defs on_tokens_def
      own_prop_def html_def)

lemma handler_token_not_text:
  "handler example_env
      (replying (json_response 200
         (JObj [(''access_token'', JObj [(''toString'', JNum 1)])])))
      (Some (callback [(''code'', ''abc'')])) =
     ([ConsoleLog [[Lit ''\<newline>Received authorization code, exchanging for token...'']],
       Fetch (exchange_request example_env (Some ''abc'')),
       WriteHead 200 [(''Content-Type'', ''text/html'')],
       End [Lit success_page],
       ConsoleLog [[Lit (''\<newline>'' @ rule_line)]],
       ConsoleLog [[Lit ''SUCCESS! Update ~/twitch-secrets/.env:'']],
       ConsoleLog [[Lit (rule_line @ ''\<newline>'')]]],
      Inl TypeError)"
  by (simp add: handler_def callback_def searchParams_get_def truthy_str_def
      exchangeCodeForToken_def replying_def json_response_def prog_defs on_tokens_def
      own_prop_def html_def)




text \<open>
  C9 (as the code has it). For every request whose target the URL constructor accepts
  and whose path is not \<^verbatim>\<open>/callback\<close>, the handler answers with the fixed plain-text
  placeholder (status 200) and the listener keeps running. The handler builds the URL
  object before it looks at the path and catches nothing: a target the constructor
  rejects gets no answer.
\<close>

theorem C9_other_paths_placeholder:
  assumes "pathname url \<noteq> ''/callback''"
  shows "handler env net (Some url) =
           ([WriteHead 200 [(''Content-Type'', ''text/plain'')],
             End [Lit ''Twitch OAuth Callback Server\<newline>Waiting for authorization...'']],
            Inr ())
         \<and> keeps_running (handler env net (Some url))"
  using assms by (simp add: handler_other_path keeps_running_def)

text \<open>The instance \<^verbatim>\<open>/favicon.ico?code=abc\<close>: the query plays no part.\<close>

theorem C9_favicon_witness:
  "handler example_env (replying (json_response 200 JNull))
       (Some \<lparr>origin = ''http://localhost:3000'', pathname = ''/favicon.ico'',
              searchParams = [(''code'', ''abc'')]\<rparr>) =
     ([WriteHead 200 [(''Content-Type'', ''text/plain'')],
       End [Lit ''Twitch OAuth Callback Server\<newline>Waiting for authorization...'']],
      Inr ())
   \<and> keeps_running (handler example_env (replying (json_response 200 JNull))
       (Some \<lparr>origin = ''http://localhost:3000'', pathname = ''/favicon.ico'',
              searchParams = [(''code'', ''abc'')]\<rparr>))"
  using C9_other_paths_placeholder
    [of "\<lparr>origin = ''http://localhost:3000'', pathname = ''/favicon.ico'',
          searchParams = [(''code'', ''abc'')]\<rparr>" example_env
        "replying (json_response 200 JNull)"]
  by (simp add: keeps_running_def)

text \<open>
  The request target \<^verbatim>\<open>//\<close> is not the callback path. The constructor throws on it, so
  the request reaches the handler as \<open>None\<close>: the handler writes no status line and no
  body, and ends in an unhandled rejection.
\<close>

theorem C9_unparsed_target_counterexample:
  "handler example_env (replying (json_response 200 JNull)) None = ([], Inl TypeError)
   \<and> statuses (fst (handler example_env (replying (json_response 200 JNull)) None)) = []
   \<and> bodies (fst (handler example_env (replying (json_response 200 JNull)) None)) = []
   \<and> \<not> keeps_running (handler example_env (replying (json_response 200 JNull)) None)"
  by (simp add: handler_unparsed_target keeps_running_def)

text \<open>
  C10. For every request to \<^verbatim>\<open>/callback\<close> whose query contains neither a \<^verbatim>\<open>code\<close> nor an
  \<^verbatim>\<open>error\<close> parameter, the handler does nothing at all: it writes no status line and no
  body, sends no request, and returns, so the listener keeps running.
\<close>

theorem C10_bare_callback_unanswered:
  assumes "pathname url = ''/callback''"
    and "''code'' \<notin> fst ` set (searchParams url)"
    and "''error'' \<notin> fst ` set (searchParams url)"
  shows "handler env net (Some url) = ([], Inr ())
         \<and> statuses (fst (handler env net (Some url))) = []
         \<and> bodies (fst (handler env net (Some url))) = []
         \<and> keeps_running (handler env net (Some url))"
proof -
  from assms(2,3) have "searchParams_get url ''code'' = None" "searchParams_get url ''error'' = None"
    by (simp_all add: searchParams_get_def map_of_eq_None_iff)
  with assms(1) have "handler env net (Some url) = ([], Inr ())"
    by (simp add: handler_idle truthy_str_def)
  then show ?thesis by (simp add: keeps_running_def)
qed

text \<open>The instance \<^verbatim>\<open>/callback?state=xyz\<close>.\<close>

theorem C10_state_only_witness:
  "handler example_env (replying (json_response 200 JNull))
       (Some (callback [(''state'', ''xyz'')])) = ([], Inr ())
   \<and> statuses (fst (handler example_env (replying (json_response 200 JNull))
        (Some (callback [(''state'', ''xyz'')])))) = []
   \<and> bodies (fst (handler example_env (replying (json_response 200 JNull))
        (Some (callback [(''state'', ''xyz'')])))) = []
   \<and> keeps_running (handler example_env (replying (json_response 200 JNull))
        (Some (callback [(''state'', ''xyz'')])))"
  using C10_bare_callback_unanswered
    [of "callback [(''state'', ''xyz'')]" example_env "replying (json_response 200 JNull)"]
  by (simp add: callback_def keeps_running_def)

section \<open>The authentication commands\<close>

text \<open>
  C5. Whenever no refresh token is configured (the variable is absent from the
  environment, or set to the empty string), \<^verbatim>\<open>refreshToken\<close> prints which value is missing,
  returns \<^verbatim>\<open>null\<close>, and sends no request.
\<close>

theorem C5_refresh_without_token:
  assumes "\<not> truthy_str (env ''TWITCH_REFRESH_TOKEN'')"
  shows "refreshToken env net =
           ([ConsoleLog [[Lit ''No TWITCH_REFRESH_TOKEN found in ~/twitch-secrets/.env'']],
             ConsoleLog [[Lit ''Run: node auth.js user  (to get a new token)'']]], Inr JNull)
         \<and> fetches (fst (refreshToken env net)) = []"
  using assms by (simp add: refreshToken_def prog_defs)

text \<open>The instance: only the two credentials are configured.\<close>

theorem C5_unconfigured_witness:
  "example_env ''TWITCH_REFRESH_TOKEN'' = None
   \<and> refreshToken example_env (replying (json_response 200 (JObj []))) =
       ([ConsoleLog [[Lit ''No TWITCH_REFRESH_TOKEN found in ~/twitch-secrets/.env'']],
         ConsoleLog [[Lit ''Run: node auth.js user  (to get a new token)'']]], Inr JNull)
   \<and> fetches (fst (refreshToken example_env (replying (json_response 200 (JObj []))))) = []"
  using C5_refresh_without_token [of example_env "replying (json_response 200 (JObj []))"]
  by (simp add: example_env_def truthy_str_def)

subsection \<open>What \<^verbatim>\<open>refreshToken\<close> does with a response\<close>







text \<open>
  A body with a token but no \<^verbatim>\<open>refresh_token\<close> makes \<^verbatim>\<open>refreshToken\<close> throw while it
  prints the new values: \<^verbatim>\<open>data.refresh_token.substring\<close> reads a property of
  \<^verbatim>\<open>undefined\<close>. On a body that is \<^verbatim>\<open>null\<close> or not JSON both functions throw.
\<close>

lemma refreshToken_without_refresh_token:
  "refreshToken (example_env(''TWITCH_REFRESH_TOKEN'' \<mapsto> ''old''))
      (replying (json_response 200 (JObj [(''access_token'', JStr ''new'')]))) =
     ([ConsoleLog [[Lit ''Refreshing access token...\<newline>'']],
       Fetch (refresh_request (example_env(''TWITCH_REFRESH_TOKEN'' \<mapsto> ''old'')) (Some ''old'')),
       ConsoleLog [[Lit ''Token refreshed successfully!'']],
       ConsoleLog [[Lit ''New access token: new...'']]], Inl TypeError)"
  by (simp add: refreshToken_def Let_def truthy_str_def replying_def json_response_def
      prog_defs own_prop_def)

lemma token_clients_unreadable_body:
  "snd (refreshToken (example_env(''TWITCH_REFRESH_TOKEN'' \<mapsto> ''old''))
          (replying (json_response 200 JNull))) = Inl TypeError"
  "snd (refreshToken (example_env(''TWITCH_REFRESH_TOKEN'' \<mapsto> ''old''))
          (replying (not_json 502))) = Inl SyntaxError"
  "snd (exchangeCodeForToken example_env (replying (not_json 502)) (Some ''abc'')) =
     Inl SyntaxError"
  by (simp_all add: refreshToken_def exchangeCodeForToken_def Let_def truthy_str_def
      replying_def json_response_def not_json_def prog_defs)

subsection \<open>What \<^verbatim>\<open>validateToken\<close> does with a response\<close>

lemma validateToken_rejected:
  assumes "truthy_str (env ''TWITCH_ACCESS_TOKEN'')"
    and "net (validate_request (env ''TWITCH_ACCESS_TOKEN'')) = Responded r"
    and "\<not> ok r"
  shows "validateToken env net =
     ([ConsoleLog [[Lit ''Validating access token...\<newline>'']],
       Fetch (validate_request (env ''TWITCH_ACCESS_TOKEN'')),
       ConsoleLog [[Lit ''Token is INVALID or EXPIRED'']],
       ConsoleLog [[Lit ''Run: node auth.js refresh'']]], Inr JNull)"
  using assms by (simp add: validateToken_def Let_def prog_defs)

lemma validateToken_metadata:
  assumes "truthy_str (env ''TWITCH_ACCESS_TOKEN'')"
    and "net (validate_request (env ''TWITCH_ACCESS_TOKEN'')) = Responded r"
    and "ok r"
    and "resp_json r = Some (JObj fs)"
    and "stringifies (own_prop fs ''login'')"
    and "stringifies (own_prop fs ''user_id'')"
    and "own_prop fs ''scopes'' = JArr xs"
    and "list_all stringifies xs"
    and "stringifies (own_prop fs ''expires_in'')"
  shows "validateToken env net =
     ([ConsoleLog [[Lit ''Validating access token...\<newline>'']],
       Fetch (validate_request (env ''TWITCH_ACCESS_TOKEN'')),
       ConsoleLog [[Lit ''Token is VALID'']],
       ConsoleLog [[Lit ''  User: '', ToString (own_prop fs ''login'')]],
       ConsoleLog [[Lit ''  User ID: '', ToString (own_prop fs ''user_id'')]],
       ConsoleLog [[Lit ''  Scopes: '', Join xs '', '']],
       ConsoleLog [[Lit ''  Expires in: '', ToString (own_prop fs ''expires_in''),
                    Lit '' seconds'']]], Inr (JObj fs))"
  using assms by (simp add: validateToken_def Let_def prog_defs)

text \<open>On a status in 200 to 299 the result is the parsed body or an error, never \<^verbatim>\<open>null\<close>.\<close>

lemma validateToken_accepted:
  assumes "truthy_str (env ''TWITCH_ACCESS_TOKEN'')"
    and "net (validate_request (env ''TWITCH_ACCESS_TOKEN'')) = Responded r"
    and "ok r"
  shows "(\<exists>e. snd (validateToken env net) = Inl e)
       \<or> (\<exists>fs. resp_json r = Some (JObj fs) \<and> snd (validateToken env net) = Inr (JObj fs))"
proof (cases "resp_json r")
  case None
  with assms show ?thesis by (simp add: validateToken_def Let_def prog_defs)
next
  case (Some data)
  show ?thesis
  proof (cases data)
    case (JObj fs)
    with Some assms show ?thesis
      by (cases "own_prop fs ''scopes''")
         (simp_all add: validateToken_def Let_def prog_defs)
  qed (use Some assms in \<open>simp_all add: validateToken_def Let_def prog_defs\<close>)
qed

text \<open>
  C6 (as the code has it). For every response of the validation endpoint: on a status
  outside 200 to 299 \<^verbatim>\<open>validateToken\<close> reports the token as invalid or expired and returns
  \<^verbatim>\<open>null\<close>, without throwing and without reading the body or the headers, and it returns
  \<^verbatim>\<open>null\<close> in no other case. It returns token metadata only on a status in 200 to 299,
  and then the metadata is the parsed body; it does return it whenever that body is a
  JSON object whose \<^verbatim>\<open>scopes\<close> is a list and whose \<^verbatim>\<open>login\<close>, \<^verbatim>\<open>user_id\<close>,
  \<^verbatim>\<open>expires_in\<close> and scopes convert to strings.
\<close>

theorem C6_validator_contract:
  assumes "env ''TWITCH_ACCESS_TOKEN'' = Some token"
    and "token \<noteq> []"
    and "net (validate_request (Some token)) = Responded r"
  shows "(\<not> ok r \<longrightarrow>
            validateToken env net =
              ([ConsoleLog [[Lit ''Validating access token...\<newline>'']],
                Fetch (validate_request (Some token)),
                ConsoleLog [[Lit ''Token is INVALID or EXPIRED'']],
                ConsoleLog [[Lit ''Run: node auth.js refresh'']]], Inr JNull))
       \<and> (snd (validateToken env net) = Inr JNull \<longleftrightarrow> \<not> ok r)
       \<and> (snd (validateToken env net) = Inr data \<longrightarrow> data \<noteq> JNull \<longrightarrow>
            ok r \<and> resp_json r = Some data)
       \<and> (ok r \<longrightarrow> resp_json r = Some (JObj fs) \<longrightarrow>
          stringifies (own_prop fs ''login'') \<longrightarrow> stringifies (own_prop fs ''user_id'') \<longrightarrow>
          own_prop fs ''scopes'' = JArr xs \<longrightarrow> list_all stringifies xs \<longrightarrow>
          stringifies (own_prop fs ''expires_in'') \<longrightarrow>
            validateToken env net =
              ([ConsoleLog [[Lit ''Validating access token...\<newline>'']],
                Fetch (validate_request (Some token)),
                ConsoleLog [[Lit ''Token is VALID'']],
                ConsoleLog [[Lit ''  User: '', ToString (own_prop fs ''login'')]],
                ConsoleLog [[Lit ''  User ID: '', ToString (own_prop fs ''user_id'')]],
                ConsoleLog [[Lit ''  Scopes: '', Join xs '', '']],
                ConsoleLog [[Lit ''  Expires in: '', ToString (own_prop fs ''expires_in''),
                             Lit '' seconds'']]], Inr (JObj fs)))"
proof -
  have token: "truthy_str (env ''TWITCH_ACCESS_TOKEN'')"
    using assms(1,2) by (simp add: truthy_str_def)
  have net: "net (validate_request (env ''TWITCH_ACCESS_TOKEN'')) = Responded r"
    using assms(1,3) by simp
  note rejected = validateToken_rejected [where env = env and net = net, OF token net]
  note accepted = validateToken_accepted [where env = env and net = net, OF token net]
  note metadata = validateToken_metadata [where env = env and net = net, OF token net]
  have first: "\<not> ok r \<longrightarrow>
      validateToken env net =
        ([ConsoleLog [[Lit ''Validating access token...\<newline>'']],
          Fetch (validate_request (Some token)),
          ConsoleLog [[Lit ''Token is INVALID or EXPIRED'']],
          ConsoleLog [[Lit ''Run: node auth.js refresh'']]], Inr JNull)"
    using rejected assms(1) by simp
  have second: "snd (validateToken env net) = Inr JNull \<longleftrightarrow> \<not> ok r"
  proof (cases "ok r")
    case True
    with accepted show ?thesis by auto
  next
    case False
    with rejected show ?thesis by simp
  qed
  have third: "snd (validateToken env net) = Inr data \<longrightarrow> data \<noteq> JNull \<longrightarrow>
      ok r \<and> resp_json r = Some data"
  proof (cases "ok r")
    case True
    with accepted show ?thesis by auto
  next
    case False
    with rejected show ?thesis by simp
  qed
  have fourth: "ok r \<longrightarrow> resp_json r = Some (JObj fs) \<longrightarrow>
      stringifies (own_prop fs ''login'') \<longrightarrow> stringifies (own_prop fs ''user_id'') \<longrightarrow>
      own_prop fs ''scopes'' = JArr xs \<longrightarrow> list_all stringifies xs \<longrightarrow>
      stringifies (own_prop fs ''expires_in'') \<longrightarrow>
        validateToken env net =
          ([ConsoleLog [[Lit ''Validating access token...\<newline>'']],
            Fetch (validate_request (Some token)),
            ConsoleLog [[Lit ''Token is VALID'']],
            ConsoleLog [[Lit ''  User: '', ToString (own_prop fs ''login'')]],
            ConsoleLog [[Lit ''  User ID: '', ToString (own_prop fs ''user_id'')]],
            ConsoleLog [[Lit ''  Scopes: '', Join xs '', '']],
            ConsoleLog [[Lit ''  Expires in: '', ToString (own_prop fs ''expires_in''),
                         Lit '' seconds'']]], Inr (JObj fs))"
    using metadata assms(1) by simp
  from first second third fourth show ?thesis by (intro conjI)
qed

text \<open>
  The instance: a 401 answer to an expired token, and a 200 answer with the metadata of a
  user token.
\<close>

theorem C6_expired_and_valid_witness:
  "validateToken (example_env(''TWITCH_ACCESS_TOKEN'' \<mapsto> ''tok''))
      (replying (json_response 401
         (JObj [(''status'', JNum 401), (''message'', JStr ''invalid access token'')]))) =
     ([ConsoleLog [[Lit ''Validating access token...\<newline>'']],
       Fetch (validate_request (Some ''tok'')),
       ConsoleLog [[Lit ''Token is INVALID or EXPIRED'']],
       ConsoleLog [[Lit ''Run: node auth.js refresh'']]], Inr JNull)
   \<and> validateToken (example_env(''TWITCH_ACCESS_TOKEN'' \<mapsto> ''tok''))
      (replying (json_response 200
         (JObj [(''login'', JStr ''someone''), (''user_id'', JStr ''42''),
                (''scopes'', JArr [JStr ''moderator:read:followers'']),
                (''expires_in'', JNum 5000)]))) =
     ([ConsoleLog [[Lit ''Validating access token...\<newline>'']],
       Fetch (validate_request (Some ''tok'')),
       ConsoleLog [[Lit ''Token is VALID'']],
       ConsoleLog [[Lit ''  User: '', ToString (JStr ''someone'')]],
       ConsoleLog [[Lit ''  User ID: '', ToString (JStr ''42'')]],
       ConsoleLog [[Lit ''  Scopes: '', Join [JStr ''moderator:read:followers''] '', '']],
       ConsoleLog [[Lit ''  Expires in: '', ToString (JNum 5000), Lit '' seconds'']]],
      Inr (JObj [(''login'', JStr ''someone''), (''user_id'', JStr ''42''),
                 (''scopes'', JArr [JStr ''moderator:read:followers'']),
                 (''expires_in'', JNum 5000)]))"
proof -
  let ?env = "example_env(''TWITCH_ACCESS_TOKEN'' \<mapsto> ''tok'')"
  let ?err = "JObj [(''status'', JNum 401), (''message'', JStr ''invalid access token'')]"
  let ?fs = "[(''login'', JStr ''someone''), (''user_id'', JStr ''42''),
              (''scopes'', JArr [JStr ''moderator:read:followers'']),
              (''expires_in'', JNum 5000)]"
  have expired: "validateToken ?env (replying (json_response 401 ?err)) =
     ([ConsoleLog [[Lit ''Validating access token...\<newline>'']],
       Fetch (validate_request (Some ''tok'')),
       ConsoleLog [[Lit ''Token is INVALID or EXPIRED'']],
       ConsoleLog [[Lit ''Run: node auth.js refresh'']]], Inr JNull)"
    using C6_validator_contract
      [where env = ?env and token = "''tok''" and net = "replying (json_response 401 ?err)"
         and r = "json_response 401 ?err", THEN conjunct1]
    by (simp add: replying_def json_response_def ok_def)
  have valid: "validateToken ?env (replying (json_response 200 (JObj ?fs))) =
     ([ConsoleLog [[Lit ''Validating access token...\<newline>'']],
       Fetch (validate_request (Some ''tok'')),
       ConsoleLog [[Lit ''Token is VALID'']],
       ConsoleLog [[Lit ''  User: '', ToString (JStr ''someone'')]],
       ConsoleLog [[Lit ''  User ID: '', ToString (JStr ''42'')]],
       ConsoleLog [[Lit ''  Scopes: '', Join [JStr ''moderator:read:followers''] '', '']],
       ConsoleLog [[Lit ''  Expires in: '', ToString (JNum 5000), Lit '' seconds'']]],
      Inr (JObj ?fs))"
    using C6_validator_contract
      [where env = ?env and token = "''tok''"
         and net = "replying (json_response 200 (JObj ?fs))"
         and r = "json_response 200 (JObj ?fs)" and fs = ?fs
         and xs = "[JStr ''moderator:read:followers'']",
         THEN conjunct2, THEN conjunct2, THEN conjunct2]
    by (simp add: replying_def json_response_def ok_def own_prop_def)
  from expired valid show ?thesis by (rule conjI)
qed

text \<open>
  A status 200 with a body that is not JSON: \<^verbatim>\<open>response.json()\<close> rejects and
  \<^verbatim>\<open>validateToken\<close> throws instead of returning any metadata.
\<close>

theorem C6_unparsed_body_counterexample:
  "ok (not_json 200)
   \<and> validateToken (example_env(''TWITCH_ACCESS_TOKEN'' \<mapsto> ''tok'')) (replying (not_json 200)) =
       ([ConsoleLog [[Lit ''Validating access token...\<newline>'']],
         Fetch (validate_request (Some ''tok''))], Inl SyntaxError)"
  by (simp add: validateToken_def Let_def truthy_str_def replying_def not_json_def
      prog_defs ok_def)

text \<open>
  Where the printing fails, \<^verbatim>\<open>validateToken\<close> throws after it has announced the token as
  valid: on a \<^verbatim>\<open>scopes\<close> that is not a list (here \<^verbatim>\<open>null\<close>) and on a field that does not
  convert to a string.
\<close>

lemma validateToken_null_scopes:
  "validateToken (example_env(''TWITCH_ACCESS_TOKEN'' \<mapsto> ''tok''))
      (replying (json_response 200
         (JObj [(''client_id'', JStr ''abc123''), (''login'', JStr ''someone''),
                (''scopes'', JNull), (''user_id'', JStr ''42''), (''expires_in'', JNum 5000)]))) =
     ([ConsoleLog [[Lit ''Validating access token...\<newline>'']],
       Fetch (validate_request (Some ''tok'')),
       ConsoleLog [[Lit ''Token is VALID'']],
       ConsoleLog [[Lit ''  User: '', ToString (JStr ''someone'')]],
       ConsoleLog [[Lit ''  User ID: '', ToString (JStr ''42'')]]], Inl TypeError)"
  by (simp add: validateToken_def Let_def truthy_str_def replying_def json_response_def
      prog_defs own_prop_def ok_def)

lemma validateToken_login_not_text:
  "validateToken (example_env(''TWITCH_ACCESS_TOKEN'' \<mapsto> ''tok''))
      (replying (json_response 200
         (JObj [(''login'', JObj [(''toString'', JNum 1)]), (''user_id'', JStr ''42''),
                (''scopes'', JArr []), (''expires_in'', JNum 5000)]))) =
     ([ConsoleLog [[Lit ''Validating access token...\<newline>'']],
       Fetch (validate_request (Some ''tok'')),
       ConsoleLog [[Lit ''Token is VALID'']]], Inl TypeError)"
  by (simp add: validateToken_def Let_def truthy_str_def replying_def json_response_def
      prog_defs own_prop_def ok_def)

subsection \<open>The authorization URL\<close>




lemma authUrl_params:
  "searchParams (authUrl env) =
     [(''client_id'', undefined_or (CLIENT_ID env)),
      (''redirect_uri'', REDIRECT_URI),
      (''response_type'', ''code''),
      (''scope'', SCOPES)]"
  by (simp add: authUrl_def searchParams_set_def)






text \<open>
  Without a client identifier in the environment the parameter is the text
  \<^verbatim>\<open>undefined\<close>: \<^verbatim>\<open>searchParams.set\<close> converts its argument to a string.
\<close>

lemma authUrl_without_client_id:
  "env ''TWITCH_CLIENT_ID'' = None \<Longrightarrow>
   map_of (searchParams (authUrl env)) ''client_id'' = Some ''undefined''"
  by (simp add: authUrl_params CLIENT_ID_def undefined_or_def)

section \<open>The Helix probe\<close>

text \<open>
  C7 (as the code has it). Every call of \<^verbatim>\<open>apiCall\<close> calls \<^verbatim>\<open>fetch\<close> exactly once,
  whatever comes back, and never again. Whenever a response arrives, it prints the three
  rate-limit headers and acts on none of them; and whenever the body of that response
  parses as JSON, it returns the status and the parsed body, whatever the status is: a
  429 with a JSON body comes back like any other response. When the body is not JSON the
  call throws after it has printed the headers.
\<close>

theorem C7_probe_single_request:
  "fetches (fst (apiCall env net endpoint)) = [api_request env endpoint]
   \<and> (net (api_request env endpoint) = Responded r \<longrightarrow>
        fst (apiCall env net endpoint) =
          [ConsoleLog [[Lit (''GET '' @ API_BASE @ endpoint @ ''\<newline>'')]],
           Fetch (api_request env endpoint),
           ConsoleLog [[Lit ''Rate Limit Info:'']],
           ConsoleLog [[Lit (''  Limit: '' @ null_or (headers_get r ''Ratelimit-Limit''))]],
           ConsoleLog [[Lit (''  Remaining: '' @ null_or (headers_get r ''Ratelimit-Remaining''))]],
           ConsoleLog [[Lit (''  Reset: '' @ null_or (headers_get r ''Ratelimit-Reset''))]],
           ConsoleLog [[Lit '''']]]
        \<and> snd (apiCall env net endpoint) =
            (case resp_json r of
               None \<Rightarrow> Inl SyntaxError
             | Some data \<Rightarrow> Inr (resp_status r, data)))"
proof -
  have once: "fetches (fst (apiCall env net endpoint)) = [api_request env endpoint]"
  proof (cases "net (api_request env endpoint)")
    case Rejected
    then show ?thesis by (simp add: apiCall_def prog_defs)
  next
    case (Responded r')
    then show ?thesis
      by (cases "resp_json r'") (simp_all add: apiCall_def prog_defs)
  qed
  have responded: "net (api_request env endpoint) = Responded r \<longrightarrow>
        fst (apiCall env net endpoint) =
          [ConsoleLog [[Lit (''GET '' @ API_BASE @ endpoint @ ''\<newline>'')]],
           Fetch (api_request env endpoint),
           ConsoleLog [[Lit ''Rate Limit Info:'']],
           ConsoleLog [[Lit (''  Limit: '' @ null_or (headers_get r ''Ratelimit-Limit''))]],
           ConsoleLog [[Lit (''  Remaining: '' @ null_or (headers_get r ''Ratelimit-Remaining''))]],
           ConsoleLog [[Lit (''  Reset: '' @ null_or (headers_get r ''Ratelimit-Reset''))]],
           ConsoleLog [[Lit '''']]]
        \<and> snd (apiCall env net endpoint) =
            (case resp_json r of
               None \<Rightarrow> Inl SyntaxError
             | Some data \<Rightarrow> Inr (resp_status r, data))"
    by (cases "resp_json r") (simp_all add: apiCall_def prog_defs)
  from once responded show ?thesis by (rule conjI)
qed

text \<open>
  The instance: with an access token configured, a 429 with \<^verbatim>\<open>Ratelimit-Remaining: 0\<close> and
  a JSON error body comes back as the pair of the status and the parsed body, after one
  call of \<^verbatim>\<open>fetch\<close>.
\<close>

theorem C7_rate_limited_witness:
  "fetches (fst (apiCall (example_env(''TWITCH_ACCESS_TOKEN'' \<mapsto> ''tok''))
       (replying rate_limited) ''/users?login=someone'')) =
     [api_request (example_env(''TWITCH_ACCESS_TOKEN'' \<mapsto> ''tok'')) ''/users?login=someone'']
   \<and> fst (apiCall (example_env(''TWITCH_ACCESS_TOKEN'' \<mapsto> ''tok''))
       (replying rate_limited) ''/users?login=someone'') =
     [ConsoleLog [[Lit ''GET https://api.twitch.tv/helix/users?login=someone\<newline>'']],
      Fetch (api_request (example_env(''TWITCH_ACCESS_TOKEN'' \<mapsto> ''tok''))
               ''/users?login=someone''),
      ConsoleLog [[Lit ''Rate Limit Info:'']],
      ConsoleLog [[Lit ''  Limit: 800'']],
      ConsoleLog [[Lit ''  Remaining: 0'']],
      ConsoleLog [[Lit ''  Reset: 1700000000'']],
      ConsoleLog [[Lit '''']]]
   \<and> snd (apiCall (example_env(''TWITCH_ACCESS_TOKEN'' \<mapsto> ''tok''))
       (replying rate_limited) ''/users?login=someone'') =
     Inr (429, JObj [(''error'', JStr ''Too Many Requests''), (''status'', JNum 429),
                     (''message'', JStr ''too many requests'')])"
  using C7_probe_single_request
    [where env = "example_env(''TWITCH_ACCESS_TOKEN'' \<mapsto> ''tok'')"
       and net = "replying rate_limited" and endpoint = "''/users?login=someone''"
       and r = rate_limited]
  by (simp add: replying_def rate_limited_def API_BASE_def null_or_def)

text \<open>
  A 429 whose body is not JSON: the headers are printed, then \<^verbatim>\<open>response.json()\<close> rejects
  and the call throws instead of returning the status and a body.
\<close>

theorem C7_unparsed_429_counterexample:
  "apiCall (example_env(''TWITCH_ACCESS_TOKEN'' \<mapsto> ''tok''))
      (replying (rate_limited\<lparr>resp_json := None\<rparr>)) ''/users?login=someone'' =
     ([ConsoleLog [[Lit ''GET https://api.twitch.tv/helix/users?login=someone\<newline>'']],
       Fetch (api_request (example_env(''TWITCH_ACCESS_TOKEN'' \<mapsto> ''tok''))
                ''/users?login=someone''),
       ConsoleLog [[Lit ''Rate Limit Info:'']],
       ConsoleLog [[Lit ''  Limit: 800'']],
       ConsoleLog [[Lit ''  Remaining: 0'']],
       ConsoleLog [[Lit ''  Reset: 1700000000'']],
       ConsoleLog [[Lit '''']]],
      Inl SyntaxError)"
  by (simp add: apiCall_def prog_defs replying_def rate_limited_def API_BASE_def null_or_def)

text \<open>When \<^verbatim>\<open>fetch\<close> rejects, the call throws at once, after its one call of \<^verbatim>\<open>fetch\<close>.\<close>

lemma apiCall_rejected:
  "net (api_request env endpoint) = Rejected \<Longrightarrow>
     apiCall env net endpoint =
       ([ConsoleLog [[Lit (''GET '' @ API_BASE @ endpoint @ ''\<newline>'')]],
         Fetch (api_request env endpoint)], Inl NetworkError)"
  by (simp add: apiCall_def prog_defs)

end
